theory Spec2Isabelle
  imports Main "HOL-Library.Word" "HOL-Library.Multiset"
begin

section \<open>rclcpp/any\_executable.hpp: the tagged union behind AnyExecutable\<close>

subsection \<open>Shared ownership\<close>

text \<open>
  Every payload is a \<^verbatim>\<open>std::shared_ptr\<close>. A shared pointer is either null or refers
  to a control block, named here by a number; the use counts of all control blocks
  form the state that copying and destroying shared pointers act on.
\<close>

datatype shared_ptr = Null | Ref nat

type_synonym use_counts = "nat \<Rightarrow> nat"

text \<open>Copy construction of a shared pointer adds an owner, destruction removes one.\<close>

fun acquire :: "shared_ptr \<Rightarrow> use_counts \<Rightarrow> use_counts" where
  "acquire Null c = c"
| "acquire (Ref k) c = c(k := Suc (c k))"

fun release :: "shared_ptr \<Rightarrow> use_counts \<Rightarrow> use_counts" where
  "release Null c = c"
| "release (Ref k) c = c(k := c k - 1)"

subsection \<open>enum ExType : uint8\_t\<close>

type_synonym ExType = "8 word"

definition EmptyExec :: ExType where "EmptyExec = 0"
definition SubscriptionExec :: ExType where "SubscriptionExec = 1"
definition TimerExec :: ExType where "TimerExec = 2"
definition ServiceExec :: ExType where "ServiceExec = 3"
definition ClientExec :: ExType where "ClientExec = 4"
definition WaitExec :: ExType where "WaitExec = 5"

lemmas ExType_defs =
  EmptyExec_def SubscriptionExec_def TimerExec_def ServiceExec_def ClientExec_def WaitExec_def

subsection \<open>union ExecutablePtr\<close>

text \<open>
  The six members of the union are structs that all start with the tag
  \<^verbatim>\<open>ExType type\<close>; five of them continue with a shared pointer \<^verbatim>\<open>ptr\<close>, the sixth
  (\<^verbatim>\<open>empty_type\<close>) with an \<^verbatim>\<open>int\<close> that no function reads. The members overlay one
  another, so the storage has one tag byte, read alike through every member, and one
  shared-pointer slot, read alike through the five entity members. The slot is
  \<open>None\<close> as long as no shared pointer has been constructed in it.
\<close>

record ExecutablePtr =
  type :: ExType
  ptr :: "shared_ptr option"

text \<open>
  The constructors. Each one initialises a single member with its tag and payload in
  one aggregate initialisation; the default constructor initialises \<^verbatim>\<open>empty\<close> and
  constructs no shared pointer.
\<close>

definition ExecutablePtr_empty :: ExecutablePtr where
  "ExecutablePtr_empty = \<lparr>type = EmptyExec, ptr = None\<rparr>"

definition ExecutablePtr_subscription :: "shared_ptr \<Rightarrow> ExecutablePtr" where
  "ExecutablePtr_subscription sub = \<lparr>type = SubscriptionExec, ptr = Some sub\<rparr>"

definition ExecutablePtr_timer :: "shared_ptr \<Rightarrow> ExecutablePtr" where
  "ExecutablePtr_timer t = \<lparr>type = TimerExec, ptr = Some t\<rparr>"

definition ExecutablePtr_service :: "shared_ptr \<Rightarrow> ExecutablePtr" where
  "ExecutablePtr_service srv = \<lparr>type = ServiceExec, ptr = Some srv\<rparr>"

definition ExecutablePtr_client :: "shared_ptr \<Rightarrow> ExecutablePtr" where
  "ExecutablePtr_client c = \<lparr>type = ClientExec, ptr = Some c\<rparr>"

definition ExecutablePtr_waitable :: "shared_ptr \<Rightarrow> ExecutablePtr" where
  "ExecutablePtr_waitable w = \<lparr>type = WaitExec, ptr = Some w\<rparr>"

lemmas ExecutablePtr_ctor_defs =
  ExecutablePtr_empty_def ExecutablePtr_subscription_def ExecutablePtr_timer_def
  ExecutablePtr_service_def ExecutablePtr_client_def ExecutablePtr_waitable_def

subsection \<open>struct TaggedExecutable\<close>

datatype TaggedExecutable = TaggedExecutable (ptr: ExecutablePtr)

definition TaggedExecutable_empty :: TaggedExecutable where
  "TaggedExecutable_empty = TaggedExecutable ExecutablePtr_empty"

definition TaggedExecutable_subscription :: "shared_ptr \<Rightarrow> TaggedExecutable" where
  "TaggedExecutable_subscription sub = TaggedExecutable (ExecutablePtr_subscription sub)"

definition TaggedExecutable_timer :: "shared_ptr \<Rightarrow> TaggedExecutable" where
  "TaggedExecutable_timer t = TaggedExecutable (ExecutablePtr_timer t)"

definition TaggedExecutable_service :: "shared_ptr \<Rightarrow> TaggedExecutable" where
  "TaggedExecutable_service srv = TaggedExecutable (ExecutablePtr_service srv)"

definition TaggedExecutable_client :: "shared_ptr \<Rightarrow> TaggedExecutable" where
  "TaggedExecutable_client c = TaggedExecutable (ExecutablePtr_client c)"

definition TaggedExecutable_waitable :: "shared_ptr \<Rightarrow> TaggedExecutable" where
  "TaggedExecutable_waitable w = TaggedExecutable (ExecutablePtr_waitable w)"

lemmas TaggedExecutable_ctor_defs =
  TaggedExecutable_empty_def TaggedExecutable_subscription_def TaggedExecutable_timer_def
  TaggedExecutable_service_def TaggedExecutable_client_def TaggedExecutable_waitable_def

subsection \<open>struct AnyExecutable\<close>

record AnyExecutable =
  callback_group :: shared_ptr
  node_base :: shared_ptr
  data :: shared_ptr
  executable :: TaggedExecutable

text \<open>Convenience functions (checking union type).\<close>

definition is_empty :: "AnyExecutable \<Rightarrow> bool" where
  "is_empty a = (type (TaggedExecutable.ptr (executable a)) = EmptyExec)"

definition is_subscription :: "AnyExecutable \<Rightarrow> bool" where
  "is_subscription a = (type (TaggedExecutable.ptr (executable a)) = SubscriptionExec)"

definition is_timer :: "AnyExecutable \<Rightarrow> bool" where
  "is_timer a = (type (TaggedExecutable.ptr (executable a)) = TimerExec)"

definition is_service :: "AnyExecutable \<Rightarrow> bool" where
  "is_service a = (type (TaggedExecutable.ptr (executable a)) = ServiceExec)"

definition is_client :: "AnyExecutable \<Rightarrow> bool" where
  "is_client a = (type (TaggedExecutable.ptr (executable a)) = ClientExec)"

definition is_waitable :: "AnyExecutable \<Rightarrow> bool" where
  "is_waitable a = (type (TaggedExecutable.ptr (executable a)) = WaitExec)"

lemmas is_kind_defs =
  is_empty_def is_subscription_def is_timer_def is_service_def is_client_def is_waitable_def

text \<open>
  Convenience functions (extracting union data). Each returns the \<^verbatim>\<open>ptr\<close> of one
  member without looking at the tag. The result is a sum so that a signalled error
  would be \<open>Inl\<close>; the functions have no such branch. \<open>Inr None\<close> is the read of a slot
  in which no shared pointer was constructed.
\<close>

datatype error = TypeMismatch

definition get_subscription :: "AnyExecutable \<Rightarrow> error + shared_ptr option" where
  "get_subscription a = Inr (ExecutablePtr.ptr (TaggedExecutable.ptr (executable a)))"

definition get_timer :: "AnyExecutable \<Rightarrow> error + shared_ptr option" where
  "get_timer a = Inr (ExecutablePtr.ptr (TaggedExecutable.ptr (executable a)))"

definition get_service :: "AnyExecutable \<Rightarrow> error + shared_ptr option" where
  "get_service a = Inr (ExecutablePtr.ptr (TaggedExecutable.ptr (executable a)))"

definition get_client :: "AnyExecutable \<Rightarrow> error + shared_ptr option" where
  "get_client a = Inr (ExecutablePtr.ptr (TaggedExecutable.ptr (executable a)))"

definition get_waitable :: "AnyExecutable \<Rightarrow> error + shared_ptr option" where
  "get_waitable a = Inr (ExecutablePtr.ptr (TaggedExecutable.ptr (executable a)))"

lemmas get_kind_defs =
  get_subscription_def get_timer_def get_service_def get_client_def get_waitable_def

text \<open>
  Convenience functions (setting union). The body of \<^verbatim>\<open>set_executable\<close> is the one
  statement \<^verbatim>\<open>_executable = TaggedExecutable(ptr)\<close>, an assignment to a TaggedExecutable.
  Neither TaggedExecutable nor the union declares an assignment operator. The members
  of the union have a shared pointer and so no trivial copy assignment, which makes
  the implicit copy assignment of the union a deleted one, and with it that of
  TaggedExecutable; a move assignment is not declared either, since both declare a copy
  constructor and a destructor. The statement selects a deleted function: it has no
  behaviour to embed, and \<^verbatim>\<open>set_executable\<close> is not part of the model.
\<close>

subsection \<open>Copy construction\<close>

text \<open>
  \<^verbatim>\<open>ExecutablePtr(ExecutablePtr const& other)\<close> switches on the tag of \<^verbatim>\<open>other\<close>.

  In the Subscription, Timer, Service and Client cases the statement is
  \<^verbatim>\<open>::new(&m) auto(&other.m)\<close>. Its initialiser is the address of the source member, so
  \<^verbatim>\<open>auto\<close> is a pointer type and the object constructed in the new storage is a pointer
  to the source member, not a copy of it: no shared pointer is constructed and no use
  count changes. The tag byte of the new object is then the first byte of that pointer,
  which the model takes as the parameter \<open>rep\<close>.

  In the Waitable case the statement is \<^verbatim>\<open>::new(&waitable) auto(other.waitable)\<close>, which
  copy-constructs the member: the tag and a new owner of the payload. In the Empty case
  \<^verbatim>\<open>empty\<close> is copied, and no shared pointer is constructed.

  The result is \<open>None\<close> where the source leaves no defined object: when no case of the
  switch matches, no member is constructed at all; and the Waitable case copies a
  shared pointer that must have been constructed.
\<close>

definition placed_pointer :: "8 word \<Rightarrow> ExecutablePtr" where
  "placed_pointer rep = \<lparr>type = rep, ptr = None\<rparr>"

definition copy_ExecutablePtr ::
  "8 word \<Rightarrow> ExecutablePtr \<Rightarrow> use_counts \<Rightarrow> (ExecutablePtr \<times> use_counts) option" where
  "copy_ExecutablePtr rep other c =
     (if type other = SubscriptionExec then Some (placed_pointer rep, c)
      else if type other = TimerExec then Some (placed_pointer rep, c)
      else if type other = ServiceExec then Some (placed_pointer rep, c)
      else if type other = ClientExec then Some (placed_pointer rep, c)
      else if type other = WaitExec then
        (case ExecutablePtr.ptr other of
           None \<Rightarrow> None
         | Some w \<Rightarrow> Some (\<lparr>type = type other, ptr = Some w\<rparr>, acquire w c))
      else if type other = EmptyExec then Some (\<lparr>type = type other, ptr = None\<rparr>, c)
      else None)"

text \<open>\<^verbatim>\<open>TaggedExecutable(TaggedExecutable const&) = default\<close> copies its one member.\<close>

definition copy_TaggedExecutable ::
  "8 word \<Rightarrow> TaggedExecutable \<Rightarrow> use_counts \<Rightarrow> (TaggedExecutable \<times> use_counts) option" where
  "copy_TaggedExecutable rep other c =
     (case copy_ExecutablePtr rep (TaggedExecutable.ptr other) c of
        None \<Rightarrow> None
      | Some (p, c') \<Rightarrow> Some (TaggedExecutable p, c'))"

text \<open>
  The implicit copy constructor of AnyExecutable copies the members in the order of their
  declaration: the three shared pointers, each gaining an owner, then \<^verbatim>\<open>_executable\<close>.
\<close>

definition copy_AnyExecutable ::
  "8 word \<Rightarrow> AnyExecutable \<Rightarrow> use_counts \<Rightarrow> (AnyExecutable \<times> use_counts) option" where
  "copy_AnyExecutable rep other c =
     (case copy_TaggedExecutable rep (executable other)
             (acquire (data other)
               (acquire (node_base other) (acquire (callback_group other) c))) of
        None \<Rightarrow> None
      | Some (e, c') \<Rightarrow>
          Some (\<lparr>callback_group = callback_group other, node_base = node_base other,
                 data = data other, executable = e\<rparr>, c'))"

text \<open>
  On a little-endian machine with 64-bit pointers the first byte of a pointer is the low
  byte of the address.
\<close>

definition first_byte_le :: "64 word \<Rightarrow> 8 word" where
  "first_byte_le addr = ucast addr"

subsection \<open>Destruction\<close>

text \<open>
  \<^verbatim>\<open>~ExecutablePtr()\<close> is a chain of tests on the tag that ends in one explicit member
  destructor call. The destructor of an entity member destroys the shared pointer in
  the slot; \<^verbatim>\<open>empty_type\<close> is trivially destructible. Destroying a shared pointer that
  was never constructed has no defined result (\<open>None\<close>).
\<close>

datatype member = M_empty | M_subscription | M_timer | M_service | M_client | M_waitable

definition destructor_branch :: "ExecutablePtr \<Rightarrow> member" where
  "destructor_branch x =
     (if type x = SubscriptionExec then M_subscription
      else if type x = TimerExec then M_timer
      else if type x = ServiceExec then M_service
      else if type x = ClientExec then M_client
      else if type x = WaitExec then M_waitable
      else M_empty)"

fun destroy_member :: "member \<Rightarrow> ExecutablePtr \<Rightarrow> use_counts \<Rightarrow> use_counts option" where
  "destroy_member M_empty x c = Some c"
| "destroy_member m x c =
     (case ExecutablePtr.ptr x of None \<Rightarrow> None | Some p \<Rightarrow> Some (release p c))"

definition destroy_ExecutablePtr :: "ExecutablePtr \<Rightarrow> use_counts \<Rightarrow> use_counts option" where
  "destroy_ExecutablePtr x c = destroy_member (destructor_branch x) x c"

text \<open>\<^verbatim>\<open>~TaggedExecutable() = default\<close> destroys its one member.\<close>

definition destroy_TaggedExecutable :: "TaggedExecutable \<Rightarrow> use_counts \<Rightarrow> use_counts option" where
  "destroy_TaggedExecutable t c = destroy_ExecutablePtr (TaggedExecutable.ptr t) c"

text \<open>
  The body of \<^verbatim>\<open>~AnyExecutable()\<close> is defined out of line. Whatever it does, the members
  are destroyed after it in the reverse order of their declaration: \<^verbatim>\<open>_executable\<close>,
  \<^verbatim>\<open>data\<close>, \<^verbatim>\<open>node_base\<close>, \<^verbatim>\<open>callback_group\<close>. This is that member destruction.
\<close>

definition destroy_AnyExecutable :: "AnyExecutable \<Rightarrow> use_counts \<Rightarrow> use_counts option" where
  "destroy_AnyExecutable a c =
     (case destroy_TaggedExecutable (executable a) c of
        None \<Rightarrow> None
      | Some c' \<Rightarrow>
          Some (release (callback_group a) (release (node_base a) (release (data a) c'))))"

section \<open>The dispatch loop around AnyExecutable\<close>

text \<open>
  Modelled from the spec: the callback groups, the wait set builder and the executor
  loop are not part of the header. The definitions of this section follow sections 4.2
  to 4.4, 5 and 8 of the specification. Entities and groups are named by numbers.
\<close>

type_synonym entity = nat
type_synonym group = nat

text \<open>Modelled from the spec: the mode of a callback group (section 4.2).\<close>

datatype mode = Reentrant | MutuallyExclusive

text \<open>
  Modelled from the spec: the registered entities, oldest registration first, the group
  every entity is registered under and the mode of every group (sections 3 and 4.3).
\<close>

record registry =
  registered :: "entity list"
  group_of :: "entity \<Rightarrow> group"
  mode_of :: "group \<Rightarrow> mode"

text \<open>
  Modelled from the spec: the state of the executor. \<open>busy\<close> is the flag of every group
  (section 4.2); \<open>running\<close> are the entities whose callback is executing; \<open>selected\<close> are
  the ready items chosen in this cycle and not yet dispatched; \<open>deferred\<close> are the ready
  items put off to the next cycle (section 4.4, step 3).
\<close>

record executor =
  busy :: "group \<Rightarrow> bool"
  running :: "entity list"
  selected :: "entity list"
  deferred :: "entity list"

text \<open>Modelled from the spec: an executor that has not run yet.\<close>

definition idle_executor :: executor where
  "idle_executor = \<lparr>busy = (\<lambda>g. False), running = [], selected = [], deferred = []\<rparr>"

text \<open>
  Modelled from the spec: the gate of section 4.2. A member of a Reentrant group always
  passes; a member of a MutuallyExclusive group passes while the group is not busy.
\<close>

definition eligible :: "registry \<Rightarrow> executor \<Rightarrow> entity \<Rightarrow> bool" where
  "eligible r s e = (mode_of r (group_of r e) = Reentrant \<or> \<not> busy s (group_of r e))"

text \<open>
  Modelled from the spec: the wait set builder of section 4.3: every entity whose group
  is Reentrant, and the members of a MutuallyExclusive group only if it is not busy.
\<close>

definition wait_set :: "registry \<Rightarrow> executor \<Rightarrow> entity list" where
  "wait_set r s = filter (eligible r s) (registered r)"

text \<open>
  Modelled from the spec: collecting (section 4.4, step 2). One ready item per entity of
  the wait set that is reported ready, in the order of registration, behind the items
  deferred from the cycle before, which so come first in this cycle (section 8).
\<close>

definition collect :: "registry \<Rightarrow> entity list \<Rightarrow> executor \<Rightarrow> entity list" where
  "collect r rdy s =
     deferred s @ filter (\<lambda>e. e \<in> set rdy \<and> e \<notin> set (deferred s)) (wait_set r s)"

text \<open>
  Modelled from the spec: the selection of section 4.4, step 3. The collected items are
  taken in order; of a MutuallyExclusive group the first one is selected and every later
  one deferred; items of a Reentrant group are all selected. \<open>seen\<close> are the
  MutuallyExclusive groups that already have their selected item. The result is the
  pair of the selected and the deferred items.
\<close>

fun select :: "registry \<Rightarrow> group list \<Rightarrow> entity list \<Rightarrow> entity list \<times> entity list" where
  "select r seen [] = ([], [])"
| "select r seen (e # es) =
     (if mode_of r (group_of r e) = MutuallyExclusive then
        (if group_of r e \<in> set seen then
           (case select r seen es of (sel, dfr) \<Rightarrow> (sel, e # dfr))
         else
           (case select r (group_of r e # seen) es of (sel, dfr) \<Rightarrow> (e # sel, dfr)))
      else
        (case select r seen es of (sel, dfr) \<Rightarrow> (e # sel, dfr)))"

text \<open>
  Modelled from the spec: marking the group of an entity busy or not busy, a no-op for a
  Reentrant group (section 4.4, step 4).
\<close>

definition set_busy :: "registry \<Rightarrow> entity \<Rightarrow> bool \<Rightarrow> executor \<Rightarrow> executor" where
  "set_busy r e b s =
     (if mode_of r (group_of r e) = MutuallyExclusive
      then s\<lparr>busy := (busy s)(group_of r e := b)\<rparr> else s)"

text \<open>
  Modelled from the spec: what happens in the loop and on its workers. \<open>Cycle rdy\<close> is
  a wait that reports the entities \<open>rdy\<close> ready, followed by collecting and selecting;
  \<open>Start e\<close> is the dispatch of the selected item \<open>e\<close>, the start of its callback;
  \<open>Finish e\<close> is the end of that callback, by completion or by failure.
\<close>

datatype event = Cycle "entity list" | Start entity | Finish entity

text \<open>
  Modelled from the spec: one step of the executor (section 4.4), \<open>None\<close> when the
  event cannot happen in the state. A cycle begins only when every item selected in the
  cycle before has been dispatched (step 5). An item is dispatched only through the
  gate, and its group becomes busy in the same step (section 4.2); the end of a callback
  clears the flag. In the single-threaded executor every \<open>Start\<close> is followed at once by
  its \<open>Finish\<close>; with a worker pool the events of different items interleave freely.
\<close>

fun step :: "registry \<Rightarrow> event \<Rightarrow> executor \<Rightarrow> executor option" where
  "step r (Cycle rdy) s =
     (if selected s = [] then
        (case select r [] (collect r rdy s) of
           (sel, dfr) \<Rightarrow> Some (s\<lparr>selected := sel, deferred := dfr\<rparr>))
      else None)"
| "step r (Start e) s =
     (if e \<in> set (selected s) \<and> eligible r s e then
        Some (set_busy r e True
               (s\<lparr>running := e # running s, selected := remove1 e (selected s)\<rparr>))
      else None)"
| "step r (Finish e) s =
     (if e \<in> set (running s) then
        Some (set_busy r e False (s\<lparr>running := remove1 e (running s)\<rparr>))
      else None)"

text \<open>Modelled from the spec: an execution of the loop is a sequence of steps.\<close>

fun run :: "registry \<Rightarrow> event list \<Rightarrow> executor \<Rightarrow> executor option" where
  "run r [] s = Some s"
| "run r (ev # evs) s = (case step r ev s of None \<Rightarrow> None | Some s' \<Rightarrow> run r evs s')"

text \<open>Modelled from the spec: the members of a group whose callback is executing.\<close>

definition members_running :: "registry \<Rightarrow> executor \<Rightarrow> group \<Rightarrow> entity list" where
  "members_running r s g = filter (\<lambda>e. group_of r e = g) (running s)"

text \<open>
  Modelled from the spec: the rule of section 4.2 as a property of a state. Of every
  MutuallyExclusive group at most one member is executing, and the group is busy while
  one is.
\<close>

definition serialized :: "registry \<Rightarrow> executor \<Rightarrow> bool" where
  "serialized r s =
     (\<forall>g. mode_of r g = MutuallyExclusive \<longrightarrow>
        length (members_running r s g) \<le> 1 \<and> (members_running r s g \<noteq> [] \<longrightarrow> busy s g))"

text \<open>
  Modelled from the spec: the scenario of section 8. The entities 1 and 2, registered
  in this order, are the members of one MutuallyExclusive group.
\<close>

definition two_members :: registry where
  "two_members =
     \<lparr>registered = [1, 2], group_of = (\<lambda>e. 0), mode_of = (\<lambda>g. MutuallyExclusive)\<rparr>"

section \<open>Construction from a handle\<close>

text \<open>
  C4. For each of the five entity kinds, the item whose payload was constructed from a
  handle of that kind answers true to the predicate of that kind and false to the five
  others, and its accessor of that kind returns the given handle. The constructor is
  one initialisation of tag and payload together: the model has no state between them.
\<close>

theorem C4_from_handle_sets_kind_and_payload:
  "(let s = a\<lparr>executable := TaggedExecutable_subscription h\<rparr> in
      is_subscription s \<and> \<not> is_empty s \<and> \<not> is_timer s \<and> \<not> is_service s \<and>
      \<not> is_client s \<and> \<not> is_waitable s \<and> get_subscription s = Inr (Some h) \<and>
      ExecutablePtr_subscription h = \<lparr>type = SubscriptionExec, ptr = Some h\<rparr>) \<and>
   (let t = a\<lparr>executable := TaggedExecutable_timer h\<rparr> in
      is_timer t \<and> \<not> is_empty t \<and> \<not> is_subscription t \<and> \<not> is_service t \<and>
      \<not> is_client t \<and> \<not> is_waitable t \<and> get_timer t = Inr (Some h) \<and>
      ExecutablePtr_timer h = \<lparr>type = TimerExec, ptr = Some h\<rparr>) \<and>
   (let v = a\<lparr>executable := TaggedExecutable_service h\<rparr> in
      is_service v \<and> \<not> is_empty v \<and> \<not> is_subscription v \<and> \<not> is_timer v \<and>
      \<not> is_client v \<and> \<not> is_waitable v \<and> get_service v = Inr (Some h) \<and>
      ExecutablePtr_service h = \<lparr>type = ServiceExec, ptr = Some h\<rparr>) \<and>
   (let c = a\<lparr>executable := TaggedExecutable_client h\<rparr> in
      is_client c \<and> \<not> is_empty c \<and> \<not> is_subscription c \<and> \<not> is_timer c \<and>
      \<not> is_service c \<and> \<not> is_waitable c \<and> get_client c = Inr (Some h) \<and>
      ExecutablePtr_client h = \<lparr>type = ClientExec, ptr = Some h\<rparr>) \<and>
   (let w = a\<lparr>executable := TaggedExecutable_waitable h\<rparr> in
      is_waitable w \<and> \<not> is_empty w \<and> \<not> is_subscription w \<and> \<not> is_timer w \<and>
      \<not> is_service w \<and> \<not> is_client w \<and> get_waitable w = Inr (Some h) \<and>
      ExecutablePtr_waitable h = \<lparr>type = WaitExec, ptr = Some h\<rparr>)"
  by (simp add: Let_def is_kind_defs get_kind_defs TaggedExecutable_ctor_defs
      ExecutablePtr_ctor_defs ExType_defs)

section \<open>Copy construction\<close>

text \<open>
  The Waitable and the Empty case of the copy constructor copy the member: the copy of
  a Waitable item has the tag and the payload of the source, and the payload has one
  more owner.
\<close>

lemma copy_ExecutablePtr_waitable:
  "copy_ExecutablePtr rep (ExecutablePtr_waitable h) c =
     Some (ExecutablePtr_waitable h, acquire h c)"
  by (simp add: copy_ExecutablePtr_def ExecutablePtr_ctor_defs ExType_defs)

lemma copy_ExecutablePtr_empty:
  "copy_ExecutablePtr rep ExecutablePtr_empty c = Some (ExecutablePtr_empty, c)"
  by (simp add: copy_ExecutablePtr_def ExecutablePtr_ctor_defs ExType_defs)

text \<open>
  C1, at the inputs where the code departs from it. The copy of a Subscription, Timer,
  Service or Client payload is the pointer that the placement new constructs: no use
  count changes, whatever the first byte \<open>rep\<close> of that pointer. For the item that is the
  only owner of subscription 1, stored at an address whose low byte is 8: the copy
  leaves the use count at 1, the copy is no subscription and its slot holds no shared
  pointer; destroying the original then brings the use count to 0 while the copy lives.
\<close>

theorem C1_copy_of_subscription_item_shares_nothing:
  "copy_ExecutablePtr rep (ExecutablePtr_subscription h) c = Some (placed_pointer rep, c) \<and>
   copy_ExecutablePtr rep (ExecutablePtr_timer h) c = Some (placed_pointer rep, c) \<and>
   copy_ExecutablePtr rep (ExecutablePtr_service h) c = Some (placed_pointer rep, c) \<and>
   copy_ExecutablePtr rep (ExecutablePtr_client h) c = Some (placed_pointer rep, c) \<and>
   copy_AnyExecutable (first_byte_le 0x7FFD4A3C1008)
     \<lparr>callback_group = Null, node_base = Null, data = Null,
      executable = TaggedExecutable_subscription (Ref 1)\<rparr>
     ((\<lambda>k. 0)(1 := 1))
   = Some (\<lparr>callback_group = Null, node_base = Null, data = Null,
            executable = TaggedExecutable \<lparr>type = 8, ptr = None\<rparr>\<rparr>,
           (\<lambda>k. 0)(1 := 1)) \<and>
   \<not> is_subscription \<lparr>callback_group = Null, node_base = Null, data = Null,
            executable = TaggedExecutable \<lparr>type = 8, ptr = None\<rparr>\<rparr> \<and>
   get_subscription \<lparr>callback_group = Null, node_base = Null, data = Null,
            executable = TaggedExecutable \<lparr>type = 8, ptr = None\<rparr>\<rparr> = Inr None \<and>
   destroy_AnyExecutable
     \<lparr>callback_group = Null, node_base = Null, data = Null,
      executable = TaggedExecutable_subscription (Ref 1)\<rparr>
     ((\<lambda>k. 0)(1 := 1))
   = Some ((\<lambda>k. 0)(1 := 0))"
  by (simp add: copy_AnyExecutable_def copy_TaggedExecutable_def copy_ExecutablePtr_def
      placed_pointer_def first_byte_le_def destroy_AnyExecutable_def
      destroy_TaggedExecutable_def destroy_ExecutablePtr_def destructor_branch_def
      TaggedExecutable_ctor_defs ExecutablePtr_ctor_defs ExType_defs
      is_kind_defs get_kind_defs)

section \<open>One active tag\<close>

text \<open>
  C3, at the inputs where the code departs from it. A TaggedExecutable constructed from
  a Subscription, Timer, Service or Client handle is copy-constructed: the tag byte of
  the copy is the first byte \<open>rep\<close> of the pointer that the placement new constructs, not
  the tag of the source, and the six kind predicates of an item with this payload answer
  for that byte. For a source at an address whose low byte is 8 the tag of the copy is
  8, which is none of the six enumerators, and all six predicates answer false.
\<close>

theorem C3_copy_of_tagged_handle_has_no_kind:
  "copy_TaggedExecutable rep (TaggedExecutable_subscription h) c =
     Some (TaggedExecutable \<lparr>type = rep, ptr = None\<rparr>, c) \<and>
   copy_TaggedExecutable rep (TaggedExecutable_timer h) c =
     Some (TaggedExecutable \<lparr>type = rep, ptr = None\<rparr>, c) \<and>
   copy_TaggedExecutable rep (TaggedExecutable_service h) c =
     Some (TaggedExecutable \<lparr>type = rep, ptr = None\<rparr>, c) \<and>
   copy_TaggedExecutable rep (TaggedExecutable_client h) c =
     Some (TaggedExecutable \<lparr>type = rep, ptr = None\<rparr>, c) \<and>
   is_empty (a\<lparr>executable := TaggedExecutable \<lparr>type = rep, ptr = None\<rparr>\<rparr>) =
     (rep = EmptyExec) \<and>
   is_subscription (a\<lparr>executable := TaggedExecutable \<lparr>type = rep, ptr = None\<rparr>\<rparr>) =
     (rep = SubscriptionExec) \<and>
   is_timer (a\<lparr>executable := TaggedExecutable \<lparr>type = rep, ptr = None\<rparr>\<rparr>) =
     (rep = TimerExec) \<and>
   is_service (a\<lparr>executable := TaggedExecutable \<lparr>type = rep, ptr = None\<rparr>\<rparr>) =
     (rep = ServiceExec) \<and>
   is_client (a\<lparr>executable := TaggedExecutable \<lparr>type = rep, ptr = None\<rparr>\<rparr>) =
     (rep = ClientExec) \<and>
   is_waitable (a\<lparr>executable := TaggedExecutable \<lparr>type = rep, ptr = None\<rparr>\<rparr>) =
     (rep = WaitExec) \<and>
   copy_TaggedExecutable (first_byte_le 0x7FFD4A3C1008)
     (TaggedExecutable_subscription (Ref 1)) ((\<lambda>k. 0)(1 := 1)) =
     Some (TaggedExecutable \<lparr>type = 8, ptr = None\<rparr>, (\<lambda>k. 0)(1 := 1)) \<and>
   (8 :: 8 word) \<noteq> EmptyExec \<and> (8 :: 8 word) \<noteq> SubscriptionExec \<and>
   (8 :: 8 word) \<noteq> TimerExec \<and> (8 :: 8 word) \<noteq> ServiceExec \<and>
   (8 :: 8 word) \<noteq> ClientExec \<and> (8 :: 8 word) \<noteq> WaitExec \<and>
   \<not> is_empty (a\<lparr>executable := TaggedExecutable \<lparr>type = 8, ptr = None\<rparr>\<rparr>) \<and>
   \<not> is_subscription (a\<lparr>executable := TaggedExecutable \<lparr>type = 8, ptr = None\<rparr>\<rparr>) \<and>
   \<not> is_timer (a\<lparr>executable := TaggedExecutable \<lparr>type = 8, ptr = None\<rparr>\<rparr>) \<and>
   \<not> is_service (a\<lparr>executable := TaggedExecutable \<lparr>type = 8, ptr = None\<rparr>\<rparr>) \<and>
   \<not> is_client (a\<lparr>executable := TaggedExecutable \<lparr>type = 8, ptr = None\<rparr>\<rparr>) \<and>
   \<not> is_waitable (a\<lparr>executable := TaggedExecutable \<lparr>type = 8, ptr = None\<rparr>\<rparr>)"
  by (simp add: copy_TaggedExecutable_def copy_ExecutablePtr_def placed_pointer_def
      first_byte_le_def TaggedExecutable_ctor_defs ExecutablePtr_ctor_defs ExType_defs
      is_kind_defs)

section \<open>The typed accessors\<close>

text \<open>
  The claim C2 fails on an item holding subscription 1: the tag is not Timer, and
  \<^verbatim>\<open>get_timer\<close> returns the handle of the subscription instead of signalling an error.
\<close>

theorem C2_counterexample:
  "\<not> is_timer \<lparr>callback_group = Null, node_base = Null, data = Null,
               executable = TaggedExecutable_subscription (Ref 1)\<rparr> \<and>
   get_timer \<lparr>callback_group = Null, node_base = Null, data = Null,
              executable = TaggedExecutable_subscription (Ref 1)\<rparr> = Inr (Some (Ref 1)) \<and>
   get_timer \<lparr>callback_group = Null, node_base = Null, data = Null,
              executable = TaggedExecutable_subscription (Ref 1)\<rparr> \<noteq> Inl TypeMismatch"
  by (simp add: is_kind_defs get_kind_defs TaggedExecutable_ctor_defs ExecutablePtr_ctor_defs
      ExType_defs)

text \<open>
  C2, as the code has it. The accessor of a kind returns the handle that an item was
  constructed from with that kind. No accessor looks at the tag or signals an error:
  all five return the content of the one payload slot, so on any item they agree.
\<close>

theorem C2_accessors_read_the_slot_unchecked:
  "get_subscription (a\<lparr>executable := TaggedExecutable_subscription h\<rparr>) = Inr (Some h) \<and>
   get_timer (a\<lparr>executable := TaggedExecutable_timer h\<rparr>) = Inr (Some h) \<and>
   get_service (a\<lparr>executable := TaggedExecutable_service h\<rparr>) = Inr (Some h) \<and>
   get_client (a\<lparr>executable := TaggedExecutable_client h\<rparr>) = Inr (Some h) \<and>
   get_waitable (a\<lparr>executable := TaggedExecutable_waitable h\<rparr>) = Inr (Some h) \<and>
   get_subscription b \<noteq> Inl e \<and> get_timer b \<noteq> Inl e \<and> get_service b \<noteq> Inl e \<and>
   get_client b \<noteq> Inl e \<and> get_waitable b \<noteq> Inl e \<and>
   get_timer b = get_subscription b \<and> get_service b = get_subscription b \<and>
   get_client b = get_subscription b \<and> get_waitable b = get_subscription b"
  by (simp add: get_kind_defs TaggedExecutable_ctor_defs ExecutablePtr_ctor_defs)

text \<open>
  The claim C5 fails in its second half: on the default-constructed item no accessor
  signals TypeMismatch.
\<close>

theorem C5_counterexample:
  "is_empty \<lparr>callback_group = Null, node_base = Null, data = Null,
             executable = TaggedExecutable_empty\<rparr> \<and>
   get_subscription \<lparr>callback_group = Null, node_base = Null, data = Null,
             executable = TaggedExecutable_empty\<rparr> \<noteq> Inl TypeMismatch \<and>
   get_timer \<lparr>callback_group = Null, node_base = Null, data = Null,
             executable = TaggedExecutable_empty\<rparr> \<noteq> Inl TypeMismatch \<and>
   get_service \<lparr>callback_group = Null, node_base = Null, data = Null,
             executable = TaggedExecutable_empty\<rparr> \<noteq> Inl TypeMismatch \<and>
   get_client \<lparr>callback_group = Null, node_base = Null, data = Null,
             executable = TaggedExecutable_empty\<rparr> \<noteq> Inl TypeMismatch \<and>
   get_waitable \<lparr>callback_group = Null, node_base = Null, data = Null,
             executable = TaggedExecutable_empty\<rparr> \<noteq> Inl TypeMismatch"
  by (simp add: is_kind_defs get_kind_defs TaggedExecutable_ctor_defs ExecutablePtr_ctor_defs
      ExType_defs)

text \<open>
  C5, as the code has it. An item whose payload is default-constructed answers true to
  \<^verbatim>\<open>is_empty\<close> and false to the five other predicates; the accessors signal no error on
  it, they read the payload slot, in which the default constructor has constructed no
  shared pointer.
\<close>

theorem C5_default_is_empty_and_accessors_unchecked:
  "(let d = a\<lparr>executable := TaggedExecutable_empty\<rparr> in
      is_empty d \<and> \<not> is_subscription d \<and> \<not> is_timer d \<and> \<not> is_service d \<and>
      \<not> is_client d \<and> \<not> is_waitable d \<and>
      get_subscription d = Inr None \<and> get_timer d = Inr None \<and> get_service d = Inr None \<and>
      get_client d = Inr None \<and> get_waitable d = Inr None)"
  by (simp add: Let_def is_kind_defs get_kind_defs TaggedExecutable_ctor_defs
      ExecutablePtr_ctor_defs ExType_defs)

section \<open>Destruction\<close>

text \<open>
  The claim C6 fails for the \<^verbatim>\<open>data\<close> member: the item holds subscription 1, null
  group and node references and the extra data 3, each with one owner. After the
  destruction the use count of 3 is 0: the destructor of \<^verbatim>\<open>data\<close> has run, which is
  neither the active payload nor a group or node reference.
\<close>

theorem C6_counterexample:
  "map_option (\<lambda>c. c 3)
     (destroy_AnyExecutable
        \<lparr>callback_group = Null, node_base = Null, data = Ref 3,
         executable = TaggedExecutable_subscription (Ref 1)\<rparr>
        ((\<lambda>k. 0)(1 := 1, 3 := 1))) = Some 0 \<and>
   ((\<lambda>k. 0)(1 := 1, 3 := 1)) 3 = (1::nat)"
  by (simp add: destroy_AnyExecutable_def destroy_TaggedExecutable_def
      destroy_ExecutablePtr_def destructor_branch_def TaggedExecutable_ctor_defs
      ExecutablePtr_ctor_defs ExType_defs)

text \<open>
  C6, as the code has it. The destructor of the union runs the destructor of the one
  member that the tag selects: the member an item was constructed with, and the
  trivially destructible \<^verbatim>\<open>empty\<close> when the tag is Empty or no enumerator. The destruction
  of an item thereby releases its active payload, if it has one, and the \<^verbatim>\<open>data\<close>,
  \<^verbatim>\<open>node_base\<close> and \<^verbatim>\<open>callback_group\<close> references, and nothing else.
\<close>

theorem C6_destruction_releases_selected_member_and_references:
  "destructor_branch ExecutablePtr_empty = M_empty \<and>
   destructor_branch (ExecutablePtr_subscription h) = M_subscription \<and>
   destructor_branch (ExecutablePtr_timer h) = M_timer \<and>
   destructor_branch (ExecutablePtr_service h) = M_service \<and>
   destructor_branch (ExecutablePtr_client h) = M_client \<and>
   destructor_branch (ExecutablePtr_waitable h) = M_waitable \<and>
   destroy_AnyExecutable (a\<lparr>executable := TaggedExecutable_empty\<rparr>) c =
     Some (release (callback_group a) (release (node_base a) (release (data a) c))) \<and>
   destroy_AnyExecutable (a\<lparr>executable := TaggedExecutable_subscription h\<rparr>) c =
     Some (release (callback_group a) (release (node_base a) (release (data a) (release h c)))) \<and>
   destroy_AnyExecutable (a\<lparr>executable := TaggedExecutable_timer h\<rparr>) c =
     Some (release (callback_group a) (release (node_base a) (release (data a) (release h c)))) \<and>
   destroy_AnyExecutable (a\<lparr>executable := TaggedExecutable_service h\<rparr>) c =
     Some (release (callback_group a) (release (node_base a) (release (data a) (release h c)))) \<and>
   destroy_AnyExecutable (a\<lparr>executable := TaggedExecutable_client h\<rparr>) c =
     Some (release (callback_group a) (release (node_base a) (release (data a) (release h c)))) \<and>
   destroy_AnyExecutable (a\<lparr>executable := TaggedExecutable_waitable h\<rparr>) c =
     Some (release (callback_group a) (release (node_base a) (release (data a) (release h c)))) \<and>
   destroy_ExecutablePtr x c =
     (if destructor_branch x = M_empty then Some c
      else map_option (\<lambda>p. release p c) (ExecutablePtr.ptr x))"
  by (cases "destructor_branch x")
     (simp_all add: destroy_AnyExecutable_def destroy_TaggedExecutable_def
      destroy_ExecutablePtr_def destructor_branch_def TaggedExecutable_ctor_defs
      ExecutablePtr_ctor_defs ExType_defs split: option.split)

section \<open>Serialisation of a MutuallyExclusive group\<close>

text \<open>The rule of section 4.2 holds before the first step and is kept by every step.\<close>

lemma serialized_idle: "serialized r idle_executor"
  by (simp add: serialized_def members_running_def idle_executor_def)

lemma short_list_member:
  assumes "length xs \<le> 1" and "x \<in> set xs"
  shows "xs = [x]"
  using assms by (cases xs) auto

lemma serialized_step:
  assumes inv: "serialized r s" and st: "step r ev s = Some s'"
  shows "serialized r s'"
proof (cases ev)
  case (Cycle rdy)
  with st inv show ?thesis
    by (auto simp: serialized_def members_running_def split: if_splits prod.splits)
next
  case (Start e)
  with st have el: "eligible r s e"
    and s': "s' = set_busy r e True (s\<lparr>running := e # running s, selected := remove1 e (selected s)\<rparr>)"
    by (auto split: if_splits)
  show ?thesis
    unfolding serialized_def
  proof (intro allI impI)
    fix g assume g: "mode_of r g = MutuallyExclusive"
    from inv g have len: "length (members_running r s g) \<le> 1"
      and bsy: "members_running r s g \<noteq> [] \<longrightarrow> busy s g"
      by (auto simp: serialized_def)
    show "length (members_running r s' g) \<le> 1 \<and> (members_running r s' g \<noteq> [] \<longrightarrow> busy s' g)"
    proof (cases "group_of r e = g")
      case True
      with el g have "\<not> busy s g" by (simp add: eligible_def)
      with bsy have "members_running r s g = []" by blast
      with True g show ?thesis
        by (simp add: s' set_busy_def members_running_def)
    next
      case False
      with len bsy show ?thesis
        by (auto simp: s' set_busy_def members_running_def)
    qed
  qed
next
  case (Finish e)
  with st have run: "e \<in> set (running s)"
    and s': "s' = set_busy r e False (s\<lparr>running := remove1 e (running s)\<rparr>)"
    by (auto split: if_splits)
  show ?thesis
    unfolding serialized_def
  proof (intro allI impI)
    fix g assume g: "mode_of r g = MutuallyExclusive"
    from inv g have len: "length (members_running r s g) \<le> 1"
      and bsy: "members_running r s g \<noteq> [] \<longrightarrow> busy s g"
      by (auto simp: serialized_def)
    have rm: "members_running r s' g = remove1 e (members_running r s g)"
      by (simp add: s' set_busy_def members_running_def filter_remove1)
    show "length (members_running r s' g) \<le> 1 \<and> (members_running r s' g \<noteq> [] \<longrightarrow> busy s' g)"
    proof (cases "group_of r e = g")
      case True
      with run have "e \<in> set (members_running r s g)"
        by (simp add: members_running_def)
      with len have "members_running r s g = [e]" by (rule short_list_member)
      with rm show ?thesis by simp
    next
      case False
      then have "e \<notin> set (members_running r s g)"
        by (auto simp: members_running_def)
      then have "members_running r s' g = members_running r s g"
        by (simp add: rm remove1_idem)
      moreover from False have "busy s' g = busy s g"
        by (simp add: s' set_busy_def)
      ultimately show ?thesis using len bsy by simp
    qed
  qed
qed

lemma serialized_run:
  "serialized r s \<Longrightarrow> run r evs s = Some s' \<Longrightarrow> serialized r s'"
proof (induction evs arbitrary: s)
  case Nil
  then show ?case by simp
next
  case (Cons ev evs)
  then show ?case
    by (auto split: option.splits dest: serialized_step)
qed

text \<open>While a MutuallyExclusive group is busy, the gate is shut for all its members.\<close>

lemma busy_gate:
  assumes "mode_of r g = MutuallyExclusive" and "busy s g"
  shows "(\<forall>e \<in> set (wait_set r s). group_of r e \<noteq> g) \<and>
         (\<forall>e. group_of r e = g \<longrightarrow> step r (Start e) s = None)"
  using assms by (auto simp: wait_set_def eligible_def)

text \<open>
  C7. In every state that an execution of the loop reaches, with one thread or with
  workers, a MutuallyExclusive group has at most one member executing, and is busy while
  one is; and while it is busy none of its members is in the wait set and none of its
  collected items can be dispatched.
\<close>

theorem C7_mutually_exclusive_group_serialized:
  assumes "run r evs idle_executor = Some s" and "mode_of r g = MutuallyExclusive"
  shows "length (members_running r s g) \<le> 1 \<and>
         (members_running r s g \<noteq> [] \<longrightarrow> busy s g) \<and>
         (busy s g \<longrightarrow>
            (\<forall>e \<in> set (wait_set r s). group_of r e \<noteq> g) \<and>
            (\<forall>e. group_of r e = g \<longrightarrow> step r (Start e) s = None))"
proof -
  from serialized_run [OF serialized_idle assms(1)] assms(2)
  have "length (members_running r s g) \<le> 1 \<and> (members_running r s g \<noteq> [] \<longrightarrow> busy s g)"
    by (simp add: serialized_def)
  with busy_gate [OF assms(2)] show ?thesis by blast
qed

text \<open>
  Both members are ready in the first cycle and the first is dispatched: the group is
  busy with one member executing, the wait set is empty and the second cannot start.
\<close>

theorem C7_witness:
  "run two_members [Cycle [1, 2], Start 1] idle_executor =
     Some \<lparr>busy = (\<lambda>g. False)(0 := True), running = [1], selected = [], deferred = [2]\<rparr> \<and>
   mode_of two_members 0 = MutuallyExclusive \<and>
   members_running two_members
     \<lparr>busy = (\<lambda>g. False)(0 := True), running = [1], selected = [], deferred = [2]\<rparr> 0 = [1] \<and>
   busy \<lparr>busy = (\<lambda>g. False)(0 := True), running = [1], selected = [], deferred = [2]\<rparr> 0 \<and>
   wait_set two_members
     \<lparr>busy = (\<lambda>g. False)(0 := True), running = [1], selected = [], deferred = [2]\<rparr> = [] \<and>
   step two_members (Start 2)
     \<lparr>busy = (\<lambda>g. False)(0 := True), running = [1], selected = [], deferred = [2]\<rparr> = None"
proof -
  have h1: "run two_members [Cycle [1, 2], Start 1] idle_executor =
     Some \<lparr>busy = (\<lambda>g. False)(0 := True), running = [1], selected = [], deferred = [2]\<rparr>"
    by (simp add: two_members_def idle_executor_def collect_def wait_set_def eligible_def
        set_busy_def)
  have h2: "mode_of two_members 0 = MutuallyExclusive"
    by (simp add: two_members_def)
  from C7_mutually_exclusive_group_serialized [OF h1 h2] h1 h2 show ?thesis
    by (simp add: two_members_def members_running_def wait_set_def eligible_def)
qed

section \<open>Selection within a MutuallyExclusive group\<close>

text \<open>Selection keeps every collected item, either selected or deferred.\<close>

lemma select_mset:
  "mset (fst (select r seen xs)) + mset (snd (select r seen xs)) = mset xs"
proof (induction xs arbitrary: seen)
  case Nil
  then show ?case by simp
next
  case (Cons x xs)
  from Cons.IH [of seen] Cons.IH [of "group_of r x # seen"]
  show ?case by (simp add: case_prod_beta)
qed

lemma select_seen_group:
  assumes "mode_of r g = MutuallyExclusive" and "g \<in> set seen"
  shows "filter (\<lambda>e. group_of r e = g) (fst (select r seen xs)) = [] \<and>
         filter (\<lambda>e. group_of r e = g) (snd (select r seen xs)) =
           filter (\<lambda>e. group_of r e = g) xs"
  using assms
proof (induction xs arbitrary: seen)
  case Nil
  then show ?case by simp
next
  case (Cons x xs)
  from Cons.prems have a: "g \<in> set (group_of r x # seen)" by simp
  from Cons.IH [OF Cons.prems] Cons.IH [OF Cons.prems(1) a] Cons.prems
  show ?case by (auto split: prod.splits)
qed

lemma select_fresh_group:
  assumes "mode_of r g = MutuallyExclusive" and "g \<notin> set seen"
  shows "filter (\<lambda>e. group_of r e = g) (fst (select r seen xs)) =
           take 1 (filter (\<lambda>e. group_of r e = g) xs) \<and>
         filter (\<lambda>e. group_of r e = g) (snd (select r seen xs)) =
           drop 1 (filter (\<lambda>e. group_of r e = g) xs)"
  using assms
proof (induction xs arbitrary: seen)
  case Nil
  then show ?case by simp
next
  case (Cons x xs)
  show ?case
  proof (cases "group_of r x = g")
    case True
    have "g \<in> set (g # seen)" by simp
    from select_seen_group [OF Cons.prems(1) this, of xs] True Cons.prems
    show ?thesis by (auto split: prod.splits)
  next
    case False
    with Cons.prems have "g \<notin> set (group_of r x # seen)" by simp
    from Cons.IH [OF Cons.prems] Cons.IH [OF Cons.prems(1) this] False
    show ?thesis by (auto split: prod.splits)
  qed
qed

text \<open>
  What is collected of a MutuallyExclusive group: its deferred items, and behind them,
  unless the group is busy, its ready members in the order of registration.
\<close>

lemma collect_group:
  assumes "mode_of r g = MutuallyExclusive"
  shows "filter (\<lambda>e. group_of r e = g) (collect r rdy s) =
         filter (\<lambda>e. group_of r e = g) (deferred s) @
         (if busy s g then []
          else filter (\<lambda>e. group_of r e = g \<and> e \<in> set rdy \<and> e \<notin> set (deferred s))
                 (registered r))"
proof (cases "busy s g")
  case True
  with assms have "filter (\<lambda>e. group_of r e = g)
      (filter (\<lambda>e. e \<in> set rdy \<and> e \<notin> set (deferred s)) (wait_set r s)) = []"
    by (auto simp: wait_set_def eligible_def filter_empty_conv)
  with True show ?thesis by (simp add: collect_def)
next
  case False
  then have "filter (\<lambda>e. group_of r e = g)
      (filter (\<lambda>e. e \<in> set rdy \<and> e \<notin> set (deferred s)) (wait_set r s)) =
      filter (\<lambda>e. group_of r e = g \<and> e \<in> set rdy \<and> e \<notin> set (deferred s)) (registered r)"
    by (auto simp: wait_set_def eligible_def intro: filter_cong)
  with False show ?thesis by (simp add: collect_def)
qed

lemma nothing_deferred_of_group:
  assumes "filter (\<lambda>e. group_of r e = g) (deferred s) = []"
  shows "filter (\<lambda>e. group_of r e = g \<and> e \<in> set rdy \<and> e \<notin> set (deferred s)) xs =
         filter (\<lambda>e. group_of r e = g \<and> e \<in> set rdy) xs"
proof (rule filter_cong [OF refl])
  fix x assume "x \<in> set xs"
  from assms have "group_of r x = g \<Longrightarrow> x \<notin> set (deferred s)"
    by (auto simp: filter_empty_conv)
  then show "(group_of r x = g \<and> x \<in> set rdy \<and> x \<notin> set (deferred s)) =
             (group_of r x = g \<and> x \<in> set rdy)"
    by blast
qed

text \<open>
  C8. In every cycle and for every MutuallyExclusive group: if any member of the group
  is collected, exactly one is selected, the first collected one, and all its other
  collected members are deferred. What is collected of the group are the items
  deferred from the cycle before and, unless the group is busy, its ready members in the
  order of registration. So with nothing of the group deferred and the group not busy
  the selected member is the oldest registered of its ready members and all its other
  ready members are deferred; and a member deferred before is selected ahead of every
  newly ready one. No item is dropped: the items selected or deferred after the cycle
  are the items deferred before it and the newly ready ones of the wait set, each once.
  With the members 1 and 2 both ready in the first cycle, 1 is selected and 2 deferred;
  in the second cycle 2 is selected, even if 1 is ready again.
\<close>

theorem C8_one_selected_rest_deferred:
  assumes "step r (Cycle rdy) s = Some s'" and "mode_of r g = MutuallyExclusive"
  shows "filter (\<lambda>e. group_of r e = g) (selected s') =
           take 1 (filter (\<lambda>e. group_of r e = g) (collect r rdy s)) \<and>
         filter (\<lambda>e. group_of r e = g) (deferred s') =
           drop 1 (filter (\<lambda>e. group_of r e = g) (collect r rdy s)) \<and>
         (filter (\<lambda>e. group_of r e = g) (collect r rdy s) \<noteq> [] \<longrightarrow>
            length (filter (\<lambda>e. group_of r e = g) (selected s')) = 1) \<and>
         filter (\<lambda>e. group_of r e = g) (collect r rdy s) =
           filter (\<lambda>e. group_of r e = g) (deferred s) @
           (if busy s g then []
            else filter (\<lambda>e. group_of r e = g \<and> e \<in> set rdy \<and> e \<notin> set (deferred s))
                   (registered r)) \<and>
         (filter (\<lambda>e. group_of r e = g) (deferred s) = [] \<and> \<not> busy s g \<longrightarrow>
            filter (\<lambda>e. group_of r e = g) (selected s') =
              take 1 (filter (\<lambda>e. group_of r e = g \<and> e \<in> set rdy) (registered r)) \<and>
            filter (\<lambda>e. group_of r e = g) (deferred s') =
              drop 1 (filter (\<lambda>e. group_of r e = g \<and> e \<in> set rdy) (registered r))) \<and>
         (filter (\<lambda>e. group_of r e = g) (deferred s) \<noteq> [] \<longrightarrow>
            filter (\<lambda>e. group_of r e = g) (selected s') =
              take 1 (filter (\<lambda>e. group_of r e = g) (deferred s))) \<and>
         mset (selected s') + mset (deferred s') = mset (collect r rdy s) \<and>
         mset (selected s') + mset (deferred s') =
           mset (deferred s) +
           mset (filter (\<lambda>e. e \<in> set rdy \<and> e \<notin> set (deferred s)) (wait_set r s)) \<and>
         mset (deferred s) \<subseteq># mset (selected s') + mset (deferred s') \<and>
         map_option selected (run two_members [Cycle [1, 2]] idle_executor) = Some [1] \<and>
         map_option deferred (run two_members [Cycle [1, 2]] idle_executor) = Some [2] \<and>
         map_option selected
           (run two_members [Cycle [1, 2], Start 1, Finish 1, Cycle [1, 2]] idle_executor) =
           Some [2] \<and>
         map_option deferred
           (run two_members [Cycle [1, 2], Start 1, Finish 1, Cycle [1, 2]] idle_executor) =
           Some [1]"
proof -
  let ?G = "\<lambda>e. group_of r e = g"
  from assms(1) have sel: "selected s' = fst (select r [] (collect r rdy s))"
    and dfr: "deferred s' = snd (select r [] (collect r rdy s))"
    by (auto split: if_splits prod.splits)
  have fresh: "g \<notin> set []" by simp
  note one = select_fresh_group [OF assms(2) fresh, of "collect r rdy s", folded sel dfr]
  from one have one_sel: "filter ?G (selected s') = take 1 (filter ?G (collect r rdy s))"
    and one_dfr: "filter ?G (deferred s') = drop 1 (filter ?G (collect r rdy s))"
    by simp_all
  have exactly: "filter ?G (collect r rdy s) \<noteq> [] \<longrightarrow> length (filter ?G (selected s')) = 1"
    unfolding one_sel by (cases "filter ?G (collect r rdy s)") simp_all
  note grp = collect_group [OF assms(2), of rdy s]
  have old: "filter ?G (deferred s) = [] \<and> \<not> busy s g \<longrightarrow>
      filter ?G (selected s') = take 1 (filter (\<lambda>e. ?G e \<and> e \<in> set rdy) (registered r)) \<and>
      filter ?G (deferred s') = drop 1 (filter (\<lambda>e. ?G e \<and> e \<in> set rdy) (registered r))"
  proof (intro impI)
    assume a: "filter ?G (deferred s) = [] \<and> \<not> busy s g"
    then have "filter ?G (collect r rdy s) =
        filter (\<lambda>e. ?G e \<and> e \<in> set rdy) (registered r)"
      using grp nothing_deferred_of_group [of r g s rdy "registered r"] by simp
    with one_sel one_dfr show
      "filter ?G (selected s') = take 1 (filter (\<lambda>e. ?G e \<and> e \<in> set rdy) (registered r)) \<and>
       filter ?G (deferred s') = drop 1 (filter (\<lambda>e. ?G e \<and> e \<in> set rdy) (registered r))"
      by simp
  qed
  have fifo: "filter ?G (deferred s) \<noteq> [] \<longrightarrow>
      filter ?G (selected s') = take 1 (filter ?G (deferred s))"
    unfolding one_sel grp by (cases "filter ?G (deferred s)") simp_all
  have all: "mset (selected s') + mset (deferred s') = mset (collect r rdy s)"
    unfolding sel dfr by (rule select_mset)
  have all': "mset (selected s') + mset (deferred s') =
      mset (deferred s) +
      mset (filter (\<lambda>e. e \<in> set rdy \<and> e \<notin> set (deferred s)) (wait_set r s))"
    unfolding all by (simp add: collect_def)
  have kept: "mset (deferred s) \<subseteq># mset (selected s') + mset (deferred s')"
    unfolding all' by simp
  have ex1: "map_option selected (run two_members [Cycle [1, 2]] idle_executor) = Some [1]"
    by (simp add: two_members_def idle_executor_def collect_def wait_set_def eligible_def)
  have ex2: "map_option deferred (run two_members [Cycle [1, 2]] idle_executor) = Some [2]"
    by (simp add: two_members_def idle_executor_def collect_def wait_set_def eligible_def)
  have ex3: "map_option selected
      (run two_members [Cycle [1, 2], Start 1, Finish 1, Cycle [1, 2]] idle_executor) =
      Some [2]"
    by (simp add: two_members_def idle_executor_def collect_def wait_set_def eligible_def
        set_busy_def)
  have ex4: "map_option deferred
      (run two_members [Cycle [1, 2], Start 1, Finish 1, Cycle [1, 2]] idle_executor) =
      Some [1]"
    by (simp add: two_members_def idle_executor_def collect_def wait_set_def eligible_def
        set_busy_def)
  show ?thesis
    by (intro conjI one_sel one_dfr exactly grp old fifo all all' kept ex1 ex2 ex3 ex4)
qed

text \<open>
  The two cycles of the scenario. In the first, from the idle executor, nothing is
  deferred: 1, the oldest registered, is selected and 2 is deferred. The second begins
  after the callback of 1 has finished, with 2 deferred and both members ready again: 2
  is selected and 1 deferred, and nothing is lost.
\<close>

theorem C8_witness:
  "step two_members (Cycle [1, 2]) idle_executor =
     Some \<lparr>busy = (\<lambda>g. False), running = [], selected = [1], deferred = [2]\<rparr> \<and>
   mode_of two_members 0 = MutuallyExclusive \<and>
   filter (\<lambda>e. group_of two_members e = 0)
     (selected \<lparr>busy = (\<lambda>g. False), running = [], selected = [1], deferred = [2]\<rparr>) =
     take 1 (filter (\<lambda>e. group_of two_members e = 0 \<and> e \<in> set [1, 2])
        (registered two_members)) \<and>
   take 1 (filter (\<lambda>e. group_of two_members e = 0 \<and> e \<in> set [1, 2])
        (registered two_members)) = [1] \<and>
   run two_members [Cycle [1, 2], Start 1, Finish 1] idle_executor =
     Some \<lparr>busy = (\<lambda>g. False), running = [], selected = [], deferred = [2]\<rparr> \<and>
   step two_members (Cycle [1, 2])
     \<lparr>busy = (\<lambda>g. False), running = [], selected = [], deferred = [2]\<rparr> =
     Some \<lparr>busy = (\<lambda>g. False), running = [], selected = [2], deferred = [1]\<rparr> \<and>
   filter (\<lambda>e. group_of two_members e = 0)
     (selected \<lparr>busy = (\<lambda>g. False), running = [], selected = [2], deferred = [1]\<rparr>) =
     take 1 (filter (\<lambda>e. group_of two_members e = 0)
        (deferred \<lparr>busy = (\<lambda>g. False), running = [], selected = [], deferred = [2]\<rparr>)) \<and>
   mset (deferred \<lparr>busy = (\<lambda>g. False), running = [], selected = [], deferred = [2]\<rparr>)
     \<subseteq># mset (selected \<lparr>busy = (\<lambda>g. False), running = [], selected = [2], deferred = [1]\<rparr>) +
         mset (deferred \<lparr>busy = (\<lambda>g. False), running = [], selected = [2], deferred = [1]\<rparr>)"
proof -
  have h1: "step two_members (Cycle [1, 2]) idle_executor =
     Some \<lparr>busy = (\<lambda>g. False), running = [], selected = [1], deferred = [2]\<rparr>"
    by (simp add: two_members_def idle_executor_def collect_def wait_set_def eligible_def)
  have h2: "mode_of two_members 0 = MutuallyExclusive"
    by (simp add: two_members_def)
  have h3: "run two_members [Cycle [1, 2], Start 1, Finish 1] idle_executor =
     Some \<lparr>busy = (\<lambda>g. False), running = [], selected = [], deferred = [2]\<rparr>"
    by (simp add: two_members_def idle_executor_def collect_def wait_set_def eligible_def
        set_busy_def fun_eq_iff)
  have h4: "step two_members (Cycle [1, 2])
     \<lparr>busy = (\<lambda>g. False), running = [], selected = [], deferred = [2]\<rparr> =
     Some \<lparr>busy = (\<lambda>g. False), running = [], selected = [2], deferred = [1]\<rparr>"
    by (simp add: two_members_def collect_def wait_set_def eligible_def)
  have h5: "take 1 (filter (\<lambda>e. group_of two_members e = 0 \<and> e \<in> set [1, 2])
        (registered two_members)) = [1]"
    by (simp add: two_members_def)
  note first = C8_one_selected_rest_deferred [OF h1 h2]
  note second = C8_one_selected_rest_deferred [OF h4 h2]
  have a1: "filter (\<lambda>e. group_of two_members e = 0) (deferred idle_executor) = [] \<and>
      \<not> busy idle_executor 0"
    by (simp add: idle_executor_def)
  have a2: "filter (\<lambda>e. group_of two_members e = 0)
      (deferred \<lparr>busy = (\<lambda>g. False), running = [], selected = [], deferred = [2]\<rparr>) \<noteq> []"
    by (simp add: two_members_def)
  note old = first [THEN conjunct2, THEN conjunct2, THEN conjunct2, THEN conjunct2,
      THEN conjunct1, THEN mp, OF a1, THEN conjunct1]
  note fifo = second [THEN conjunct2, THEN conjunct2, THEN conjunct2, THEN conjunct2,
      THEN conjunct2, THEN conjunct1, THEN mp, OF a2]
  note kept = second [THEN conjunct2, THEN conjunct2, THEN conjunct2, THEN conjunct2,
      THEN conjunct2, THEN conjunct2, THEN conjunct2, THEN conjunct2, THEN conjunct1]
  show ?thesis
    by (intro conjI h1 h2 old h5 h3 h4 fifo kept)
qed

end
